theory Spec2Isabelle
  imports Complex_Main
begin

section \<open>Token storage (frontend/src/api/client.ts, lines 23-39)\<close>

text \<open>
  The browser's \<^verbatim>\<open>localStorage\<close> is a dictionary from keys to strings;
  \<^verbatim>\<open>getItem\<close> of a missing key is \<^verbatim>\<open>null\<close>, modelled as \<open>None\<close>.
\<close>

type_synonym local_storage = "string \<rightharpoonup> string"

definition ACCESS_KEY :: string where
  "ACCESS_KEY = ''jwt_access''"

definition REFRESH_KEY :: string where
  "REFRESH_KEY = ''jwt_refresh''"

text \<open>
  \<^verbatim>\<open>Partial<JwtPair>\<close>: each field is a string or missing. A JavaScript condition
  on such a value holds when the value is present and not the empty string.
\<close>

record JwtPair =
  access :: "string option"
  refresh :: "string option"

definition truthy :: "string option \<Rightarrow> bool" where
  "truthy v = (case v of None \<Rightarrow> False | Some t \<Rightarrow> t \<noteq> [])"

definition getAccessToken :: "local_storage \<Rightarrow> string option" where
  "getAccessToken ls = ls ACCESS_KEY"

definition getRefreshToken :: "local_storage \<Rightarrow> string option" where
  "getRefreshToken ls = ls REFRESH_KEY"

definition setItem :: "string \<Rightarrow> string option \<Rightarrow> local_storage \<Rightarrow> local_storage" where
  "setItem k v ls = (case v of None \<Rightarrow> ls | Some t \<Rightarrow> ls(k \<mapsto> t))"

definition setTokens :: "JwtPair \<Rightarrow> local_storage \<Rightarrow> local_storage" where
  "setTokens tokens ls =
     (let ls1 = (if truthy (access tokens) then setItem ACCESS_KEY (access tokens) ls else ls)
      in if truthy (refresh tokens) then setItem REFRESH_KEY (refresh tokens) ls1 else ls1)"

definition clearTokens :: "local_storage \<Rightarrow> local_storage" where
  "clearTokens ls = (ls(ACCESS_KEY := None))(REFRESH_KEY := None)"


section \<open>The HTTP client and its interceptors (frontend/src/api/client.ts, lines 41-95)\<close>

text \<open>
  JavaScript runs one job at a time: the code between two \<^verbatim>\<open>await\<close>s is atomic, and
  the jobs a network event makes ready (promise reactions) all run before the next network
  event is delivered. The client is therefore a state machine whose steps are the network
  events, each step running the source's code up to the points where every handler is
  suspended on the network again.

  An \<^verbatim>\<open>AxiosError\<close> is represented by its \<^verbatim>\<open>response?.status\<close>
  (\<open>None\<close> when there is no response); its \<^verbatim>\<open>config\<close> is the request it
  belongs to. An assignment to \<^verbatim>\<open>window.location.href\<close> is recorded in \<open>href\<close>; the
  page load that it starts is not part of the model, so the states after it are those of a
  page that is still there. The copy of the file that has the \<^verbatim>\<open>AUTH_DISABLED\<close>
  switch runs the same code when the switch is off.
\<close>

type_synonym axios_error = "nat option"

datatype phase =
    InFlight                     \<comment> \<open>dispatched, no response yet\<close>
  | Queued axios_error           \<comment> \<open>handler suspended on line 75\<close>
  | AwaitingRefresh axios_error  \<comment> \<open>handler suspended on line 79\<close>
  | Rejected axios_error         \<comment> \<open>\<^verbatim>\<open>Promise.reject(error)\<close>\<close>
  | Fulfilled

text \<open>
  One request made through \<^verbatim>\<open>api\<close>: the fields of its config that the
  interceptors read or write, the number of times it has been put on the network, and where
  its promise stands.
\<close>

record request =
  retry :: bool                     \<comment> \<open>\<^verbatim>\<open>config._retry\<close>\<close>
  Authorization :: "string option"  \<comment> \<open>\<^verbatim>\<open>config.headers.Authorization\<close>\<close>
  sends :: nat
  phase :: phase

record client =
  localStorage :: local_storage
  isRefreshing :: bool
  pendingRequests :: "nat list"   \<comment> \<open>the \<^verbatim>\<open>resolve\<close> callbacks, by the request each one resumes\<close>
  refreshPosts :: "nat list"      \<comment> \<open>refresh POSTs on the network, by the request that started each\<close>
  href :: string                  \<comment> \<open>\<^verbatim>\<open>window.location.href\<close>\<close>
  requests :: "nat \<rightharpoonup> request"

definition upd_request :: "nat \<Rightarrow> (request \<Rightarrow> request) \<Rightarrow> client \<Rightarrow> client" where
  "upd_request r f s =
     (case requests s r of
        None \<Rightarrow> s
      | Some c \<Rightarrow> s\<lparr>requests := (requests s)(r \<mapsto> f c)\<rparr>)"

text \<open>Lines 42-46, and again lines 86-90: set the bearer header if a token is stored.\<close>

definition set_bearer :: "local_storage \<Rightarrow> request \<Rightarrow> request" where
  "set_bearer ls c =
     (let token = getAccessToken ls
      in if truthy token
         then c\<lparr>Authorization := Some (''Bearer '' @ the token)\<rparr>
         else c)"

definition request_interceptor :: "local_storage \<Rightarrow> request \<Rightarrow> request" where
  "request_interceptor ls config = set_bearer ls config"

text \<open>\<^verbatim>\<open>api(config)\<close>: the request interceptor runs, then the request goes out.\<close>

definition api :: "nat \<Rightarrow> client \<Rightarrow> client" where
  "api r s =
     upd_request r
       (\<lambda>c. (request_interceptor (localStorage s) c)\<lparr>sends := Suc (sends c), phase := InFlight\<rparr>) s"

text \<open>Lines 86-90 of the response handler, run by a handler that resumes after its \<^verbatim>\<open>await\<close>.\<close>

definition prepare_retry :: "nat \<Rightarrow> client \<Rightarrow> client" where
  "prepare_retry r s = upd_request r (set_bearer (localStorage s)) s"

text \<open>Lines 80-83: the \<^verbatim>\<open>catch\<close> of the handler that called \<^verbatim>\<open>refreshAccessToken\<close>.\<close>

definition catch_refresh :: "nat \<Rightarrow> axios_error \<Rightarrow> client \<Rightarrow> client" where
  "catch_refresh r err s =
     upd_request r (\<lambda>c. c\<lparr>phase := Rejected err\<rparr>)
       (s\<lparr>localStorage := clearTokens (localStorage s), href := ''/login''\<rparr>)"

text \<open>
  \<^verbatim>\<open>refreshAccessToken\<close> from the point where its POST settles (or where it throws for
  want of a refresh token) to its end: line 59 on success, then the \<^verbatim>\<open>finally\<close>
  block, lines 61-63. \<open>Some a\<close> is a response whose \<^verbatim>\<open>data.access\<close> is \<open>a\<close>;
  \<open>None\<close> is a failure. The callbacks called on line 62 make the queued handlers ready;
  they are run by \<open>settle\<close> below.
\<close>

definition refreshAccessToken_end :: "string option \<Rightarrow> client \<Rightarrow> client" where
  "refreshAccessToken_end outcome s =
     (let s1 = (case outcome of
                  Some a \<Rightarrow> s\<lparr>localStorage :=
                              setTokens \<lparr>access = Some a, refresh = None\<rparr> (localStorage s)\<rparr>
                | None \<Rightarrow> s)
      in s1\<lparr>isRefreshing := False, pendingRequests := []\<rparr>)"

text \<open>
  Everything that runs once \<^verbatim>\<open>refreshAccessToken\<close>, called by the handler of request
  \<open>r\<close>, comes to its end. The jobs run in the order in which they became ready: the queued
  handlers (made ready on line 62) run lines 86-91, then the handler of \<open>r\<close> continues
  after line 79 (lines 86-91 on success, the \<^verbatim>\<open>catch\<close> on failure), and last the
  request interceptors of the re-issued requests run and the requests go out.
\<close>

definition settle :: "nat \<Rightarrow> axios_error \<Rightarrow> string option \<Rightarrow> client \<Rightarrow> client" where
  "settle r err outcome s =
     (let waiters = pendingRequests s;
          s1 = refreshAccessToken_end outcome s;
          s2 = fold prepare_retry waiters s1;
          s3 = (case outcome of
                  Some a \<Rightarrow> prepare_retry r s2
                | None \<Rightarrow> catch_refresh r err s2);
          again = (case outcome of Some a \<Rightarrow> waiters @ [r] | None \<Rightarrow> waiters)
      in fold api again s3)"

text \<open>
  \<^verbatim>\<open>refreshAccessToken\<close> up to its \<^verbatim>\<open>await\<close>, lines 54-58, called by the handler
  of request \<open>r\<close>. With a refresh token the POST goes out and the function is suspended
  (\<open>True\<close>); without one it throws \<^verbatim>\<open>Error("No refresh token")\<close> (\<open>False\<close>), and
  what follows is its end as a failure.
\<close>

definition refreshAccessToken_begin :: "nat \<Rightarrow> client \<Rightarrow> bool \<times> client" where
  "refreshAccessToken_begin r s =
     (let s1 = s\<lparr>isRefreshing := True\<rparr>
      in if truthy (getRefreshToken (localStorage s1))
         then (True, s1\<lparr>refreshPosts := refreshPosts s1 @ [r]\<rparr>)
         else (False, s1))"

text \<open>The rejection handler of the response interceptor, lines 69-94, up to its first \<^verbatim>\<open>await\<close>.\<close>

definition on_rejected :: "nat \<Rightarrow> axios_error \<Rightarrow> client \<Rightarrow> client" where
  "on_rejected r err s =
     (case requests s r of
        None \<Rightarrow> s
      | Some original \<Rightarrow>
          if err = Some 401 \<and> \<not> retry original then
            if isRefreshing s then
              upd_request r (\<lambda>c. c\<lparr>phase := Queued err\<rparr>)
                (s\<lparr>pendingRequests := pendingRequests s @ [r]\<rparr>)
            else
              (let (posted, s1) =
                     refreshAccessToken_begin r (upd_request r (\<lambda>c. c\<lparr>retry := True\<rparr>) s)
               in if posted
                  then upd_request r (\<lambda>c. c\<lparr>phase := AwaitingRefresh err\<rparr>) s1
                  else settle r err None s1)
          else upd_request r (\<lambda>c. c\<lparr>phase := Rejected err\<rparr>) s)"

text \<open>
  The events of the client. \<open>Send r h\<close>: the application makes a new request \<open>r\<close> through
  \<^verbatim>\<open>api\<close>, with \<open>h\<close> its own Authorization header, if any. \<open>Succeed r\<close> and
  \<open>Fail r err\<close>: the response to \<open>r\<close> arrives. \<open>RefreshDone r outcome\<close>: the refresh
  POST started for \<open>r\<close> settles. \<open>Login a b\<close>: \<^verbatim>\<open>setTokens(data)\<close> of the
  AuthProvider, with the pair the server returned. \<open>Logout\<close>: the AuthProvider's logout.
\<close>

datatype event =
    Send nat "string option"
  | Succeed nat
  | Fail nat axios_error
  | RefreshDone nat "string option"
  | Login string string
  | Logout

definition in_flight :: "client \<Rightarrow> nat \<Rightarrow> bool" where
  "in_flight s r = (case requests s r of None \<Rightarrow> False | Some c \<Rightarrow> phase c = InFlight)"

text \<open>The \<^verbatim>\<open>error\<close> that the handler of \<open>r\<close>, suspended on line 79, holds.\<close>

definition awaited_error :: "client \<Rightarrow> nat \<Rightarrow> axios_error" where
  "awaited_error s r =
     (case requests s r of
        Some c \<Rightarrow> (case phase c of AwaitingRefresh err \<Rightarrow> err | _ \<Rightarrow> Some 401)
      | None \<Rightarrow> Some 401)"

fun step :: "event \<Rightarrow> client \<Rightarrow> client option" where
  "step (Send r h) s =
     (if r \<in> dom (requests s) then None
      else Some (api r (s\<lparr>requests := (requests s)
             (r \<mapsto> \<lparr>retry = False, Authorization = h, sends = 0, phase = InFlight\<rparr>)\<rparr>)))"
| "step (Succeed r) s =
     (if in_flight s r then Some (upd_request r (\<lambda>c. c\<lparr>phase := Fulfilled\<rparr>) s) else None)"
| "step (Fail r err) s =
     (if in_flight s r then Some (on_rejected r err s) else None)"
| "step (RefreshDone r outcome) s =
     (if r \<in> set (refreshPosts s)
      then Some (settle r (awaited_error s r) outcome
                   (s\<lparr>refreshPosts := remove1 r (refreshPosts s)\<rparr>))
      else None)"
| "step (Login a b) s =
     Some (s\<lparr>localStorage := setTokens \<lparr>access = Some a, refresh = Some b\<rparr> (localStorage s)\<rparr>)"
| "step Logout s =
     Some (s\<lparr>localStorage := clearTokens (localStorage s), href := ''/login''\<rparr>)"

fun run :: "event list \<Rightarrow> client \<Rightarrow> client option" where
  "run [] s = Some s"
| "run (e # es) s = (case step e s of None \<Rightarrow> None | Some s' \<Rightarrow> run es s')"

definition init :: client where
  "init = \<lparr>localStorage = Map.empty, isRefreshing = False, pendingRequests = [],
           refreshPosts = [], href = ''/'', requests = Map.empty\<rparr>"

inductive reachable :: "client \<Rightarrow> bool" where
  reachable_init: "reachable init"
| reachable_step: "reachable s \<Longrightarrow> step e s = Some s' \<Longrightarrow> reachable s'"


section \<open>The Daily Review page (frontend/src/pages/DailyReview.tsx, frontend/src/types)\<close>

datatype label_type = client_label | project_label | task_label

record Suggestion =
  label_type :: label_type
  value_text :: string
  confidence :: real

text \<open>
  \<^verbatim>\<open>BlockDto\<close>: \<^verbatim>\<open>string | null\<close> fields and optional fields are options;
  \<open>id'\<close>, \<open>end'\<close> and \<open>notes'\<close> are the source's \<^verbatim>\<open>id\<close>, \<^verbatim>\<open>end\<close> and
  \<^verbatim>\<open>notes\<close>.
\<close>

record BlockDto =
  id' :: int
  start :: string
  end' :: string
  minutes :: int
  title :: "string option"
  url :: "string option"
  file_path :: "string option"
  client :: "string option"
  project :: "string option"
  task :: "string option"
  notes' :: "string option"
  suggestions :: "Suggestion list option"

text \<open>\<^verbatim>\<open>x.suggestions || []\<close>: an array is never falsy, so only a missing field gives \<open>[]\<close>.\<close>

definition or_empty :: "'a list option \<Rightarrow> 'a list" where
  "or_empty v = (case v of None \<Rightarrow> [] | Some xs \<Rightarrow> xs)"

text \<open>\<^verbatim>\<open>new Map(entries)\<close> sets the entries in order, so a later entry replaces an earlier one.\<close>

definition new_Map :: "('k \<times> 'v) list \<Rightarrow> ('k \<rightharpoonup> 'v)" where
  "new_Map entries = fold (\<lambda>(k, v) m. m(k \<mapsto> v)) entries Map.empty"

text \<open>Lines 20-21 of \<^verbatim>\<open>load\<close>: \<open>b\<close> and \<open>withSug\<close> are the two responses.\<close>

definition load :: "BlockDto list \<Rightarrow> BlockDto list \<Rightarrow> BlockDto list" where
  "load b withSug =
     (let sugMap = new_Map (map (\<lambda>x. (id' x, or_empty (suggestions x))) withSug)
      in map (\<lambda>x. x\<lparr>suggestions := Some (or_empty (sugMap (id' x)))\<rparr>) b)"


section \<open>The block card (frontend/src/components/BlockCard.tsx, frontend/src/api/blocks.ts)\<close>

datatype rule_field = client_field | project_field | task_field

datatype rule_kind = contains | regex | equals

text \<open>\<^verbatim>\<open>LabelPayload\<close>: a key that is not in the object is \<open>None\<close>.\<close>

record LabelPayload =
  block_id :: int
  payload_client :: "string option"
  payload_project :: "string option"
  payload_task :: "string option"
  payload_notes :: "string option"
  create_rule :: "bool option"
  create_rule_field :: "rule_field option"
  create_rule_value :: "string option"
  pattern :: "string option"
  kind :: "rule_kind option"

text \<open>The state of one card: the block it shows and the values of its inputs.\<close>

record BlockCard =
  block :: BlockDto
  client_input :: string
  project_input :: string
  task_input :: string
  notes_input :: string
  createRule :: bool
  ruleField :: rule_field
  ruleValue :: string

text \<open>\<^verbatim>\<open>if (v) payload.k = v\<close>: the key is set when the input is not the empty string.\<close>

definition if_nonempty :: "string \<Rightarrow> string option" where
  "if_nonempty v = (if v \<noteq> [] then Some v else None)"

text \<open>The payload that \<^verbatim>\<open>apply\<close> builds on lines 71-82 and passes to \<^verbatim>\<open>labelBlock\<close>.\<close>

definition apply_payload :: "BlockCard \<Rightarrow> LabelPayload" where
  "apply_payload form =
     (let payload = \<lparr>block_id = id' (block form),
                     payload_client = if_nonempty (client_input form),
                     payload_project = if_nonempty (project_input form),
                     payload_task = if_nonempty (task_input form),
                     payload_notes = if_nonempty (notes_input form),
                     create_rule = None, create_rule_field = None, create_rule_value = None,
                     pattern = None, kind = None\<rparr>
      in if createRule form
         then payload\<lparr>create_rule := Some True,
                      create_rule_field := Some (ruleField form),
                      create_rule_value := Some (ruleValue form)\<rparr>
         else payload)"


section \<open>The server side, from the specification\<close>

subsection \<open>LabelApplier\<close>

text \<open>
  Modelled from the spec: the argument \<open>labels\<close> of the LabelApplier, a partial record of
  client, project, task and notes; an absent field is \<open>None\<close>.
\<close>

record Labels =
  labels_client :: "string option"
  labels_project :: "string option"
  labels_task :: "string option"
  labels_notes :: "string option"

text \<open>
  Modelled from the spec: a stored block, as its label fields and \<open>block_rest\<close> for every
  other field of the block.
\<close>

record 'a StoredBlock =
  stored_labels :: Labels
  block_rest :: 'a

text \<open>Modelled from the spec: the failure of the LabelApplier on an unknown block id.\<close>

datatype apply_error = NotFoundError

text \<open>
  Modelled from the spec: the write of one label field, where a field present in \<open>labels\<close>
  replaces the stored one and an absent field leaves it.
\<close>

definition write_field :: "'a option \<Rightarrow> 'a option \<Rightarrow> 'a option" where
  "write_field new old = (case new of None \<Rightarrow> old | Some v \<Rightarrow> Some v)"

text \<open>
  Modelled from the spec: the server's LabelApplier (section 4.4), whose code is not among
  the sources. \<open>apply_labels\<close> fails with \<open>NotFoundError\<close> if \<open>block_id\<close> does not
  reference an existing block; otherwise it writes only the fields present in \<open>labels\<close>
  and leaves absent fields untouched. The optional rule insertion is an independent write
  and is not part of this model.
\<close>

definition apply_labels ::
  "(int \<rightharpoonup> 'a StoredBlock) \<Rightarrow> int \<Rightarrow> Labels \<Rightarrow> apply_error + (int \<rightharpoonup> 'a StoredBlock)" where
  "apply_labels store bid labels =
     (case store bid of
        None \<Rightarrow> Inl NotFoundError
      | Some b \<Rightarrow>
          Inr (store(bid \<mapsto> b\<lparr>stored_labels :=
            \<lparr>labels_client = write_field (labels_client labels) (labels_client (stored_labels b)),
             labels_project = write_field (labels_project labels) (labels_project (stored_labels b)),
             labels_task = write_field (labels_task labels) (labels_task (stored_labels b)),
             labels_notes = write_field (labels_notes labels) (labels_notes (stored_labels b))\<rparr>\<rparr>)))"

text \<open>The \<open>labels\<close> argument that a \<^verbatim>\<open>label-block\<close> payload carries.\<close>

definition payload_labels :: "LabelPayload \<Rightarrow> Labels" where
  "payload_labels p =
     \<lparr>labels_client = payload_client p, labels_project = payload_project p,
      labels_task = payload_task p, labels_notes = payload_notes p\<rparr>"

subsection \<open>BlockAggregator\<close>











section \<open>Invariants of the client\<close>


text \<open>\<^verbatim>\<open>setTokens\<close> never stores an empty string under either key.\<close>

definition tokens_nonempty :: "local_storage \<Rightarrow> bool" where
  "tokens_nonempty ls \<longleftrightarrow> ls ACCESS_KEY \<noteq> Some [] \<and> ls REFRESH_KEY \<noteq> Some []"


text \<open>Where the promise of request \<open>r\<close> stands, if the request exists.\<close>

definition phase_of :: "client \<Rightarrow> nat \<Rightarrow> phase option" where
  "phase_of s r = map_option phase (requests s r)"



section \<open>Properties of the token storage\<close>

lemma keys_differ: "ACCESS_KEY \<noteq> REFRESH_KEY"
  by (simp add: ACCESS_KEY_def REFRESH_KEY_def)

lemma getAccessToken_setTokens:
  "getAccessToken (setTokens tokens ls) =
     (if truthy (access tokens) then access tokens else getAccessToken ls)"
  using keys_differ
  by (auto simp: getAccessToken_def setTokens_def setItem_def Let_def truthy_def
           split: option.splits)

lemma getRefreshToken_setTokens:
  "getRefreshToken (setTokens tokens ls) =
     (if truthy (refresh tokens) then refresh tokens else getRefreshToken ls)"
  using keys_differ
  by (auto simp: getRefreshToken_def setTokens_def setItem_def Let_def truthy_def
           split: option.splits)

lemma getAccessToken_clearTokens: "getAccessToken (clearTokens ls) = None"
  using keys_differ by (simp add: getAccessToken_def clearTokens_def)

lemma getRefreshToken_clearTokens: "getRefreshToken (clearTokens ls) = None"
  by (simp add: getRefreshToken_def clearTokens_def)


text \<open>
  Claim C9, as stated: after \<^verbatim>\<open>setTokens({access, refresh})\<close> the getters return
  exactly those strings, for every pair of strings. It fails for the empty string, which
  the guard on lines 33-34 does not store.
\<close>

theorem setTokens_empty_counterexample:
  "getAccessToken (setTokens \<lparr>access = Some [], refresh = Some ''r''\<rparr> Map.empty) \<noteq> Some []"
  by (simp add: getAccessToken_setTokens truthy_def) (simp add: getAccessToken_def)

text \<open>
  Claim C9, amended: for every pair of non-empty token strings, after
  \<^verbatim>\<open>setTokens({access, refresh})\<close> the getters return exactly those strings; after
  \<^verbatim>\<open>clearTokens\<close> both getters return null; \<^verbatim>\<open>setTokens\<close> with a missing or
  empty field leaves the corresponding stored token unchanged.
\<close>

theorem token_storage_roundtrip:
  "(a \<noteq> [] \<longrightarrow> getAccessToken (setTokens \<lparr>access = Some a, refresh = y\<rparr> ls) = Some a) \<and>
   (b \<noteq> [] \<longrightarrow> getRefreshToken (setTokens \<lparr>access = x, refresh = Some b\<rparr> ls) = Some b) \<and>
   getAccessToken (clearTokens ls) = None \<and>
   getRefreshToken (clearTokens ls) = None \<and>
   (x = None \<or> x = Some [] \<longrightarrow>
      getAccessToken (setTokens \<lparr>access = x, refresh = y\<rparr> ls) = getAccessToken ls) \<and>
   (y = None \<or> y = Some [] \<longrightarrow>
      getRefreshToken (setTokens \<lparr>access = x, refresh = y\<rparr> ls) = getRefreshToken ls)"
  by (auto simp: getAccessToken_setTokens getRefreshToken_setTokens truthy_def
        getAccessToken_clearTokens getRefreshToken_clearTokens)

theorem token_storage_roundtrip_witness:
  "''abc'' \<noteq> [] \<and> ''xyz'' \<noteq> [] \<and>
   getAccessToken (setTokens \<lparr>access = Some ''abc'', refresh = None\<rparr> Map.empty) = Some ''abc'' \<and>
   getRefreshToken (setTokens \<lparr>access = None, refresh = Some ''xyz''\<rparr> Map.empty) = Some ''xyz'' \<and>
   getAccessToken (setTokens \<lparr>access = None, refresh = None\<rparr> Map.empty) = getAccessToken Map.empty \<and>
   getRefreshToken (setTokens \<lparr>access = None, refresh = None\<rparr> Map.empty) = getRefreshToken Map.empty"
  using token_storage_roundtrip [of "''abc''" None Map.empty "''xyz''" None]
  by simp


section \<open>Properties of the client\<close>

lemma upd_request_fields [simp]:
  "localStorage (upd_request r f s) = localStorage s"
  "isRefreshing (upd_request r f s) = isRefreshing s"
  "pendingRequests (upd_request r f s) = pendingRequests s"
  "refreshPosts (upd_request r f s) = refreshPosts s"
  "href (upd_request r f s) = href s"
  by (simp_all add: upd_request_def split: option.splits)

lemma api_fields [simp]:
  "localStorage (api r s) = localStorage s"
  "isRefreshing (api r s) = isRefreshing s"
  "pendingRequests (api r s) = pendingRequests s"
  "refreshPosts (api r s) = refreshPosts s"
  "href (api r s) = href s"
  by (simp_all add: api_def)

lemma prepare_retry_fields [simp]:
  "localStorage (prepare_retry r s) = localStorage s"
  "isRefreshing (prepare_retry r s) = isRefreshing s"
  "pendingRequests (prepare_retry r s) = pendingRequests s"
  "refreshPosts (prepare_retry r s) = refreshPosts s"
  "href (prepare_retry r s) = href s"
  by (simp_all add: prepare_retry_def)

lemma fold_api_fields [simp]:
  "localStorage (fold api rs s) = localStorage s"
  "isRefreshing (fold api rs s) = isRefreshing s"
  "pendingRequests (fold api rs s) = pendingRequests s"
  "refreshPosts (fold api rs s) = refreshPosts s"
  "href (fold api rs s) = href s"
  by (induction rs arbitrary: s; simp)+

lemma fold_prepare_retry_fields [simp]:
  "localStorage (fold prepare_retry rs s) = localStorage s"
  "isRefreshing (fold prepare_retry rs s) = isRefreshing s"
  "pendingRequests (fold prepare_retry rs s) = pendingRequests s"
  "refreshPosts (fold prepare_retry rs s) = refreshPosts s"
  "href (fold prepare_retry rs s) = href s"
  by (induction rs arbitrary: s; simp)+


lemmas client_defs = init_def on_rejected_def refreshAccessToken_begin_def settle_def
  refreshAccessToken_end_def catch_refresh_def prepare_retry_def api_def request_interceptor_def
  set_bearer_def upd_request_def in_flight_def awaited_error_def
  getAccessToken_def getRefreshToken_def setTokens_def setItem_def clearTokens_def truthy_def
  ACCESS_KEY_def REFRESH_KEY_def Let_def





lemma tokens_nonempty_setTokens: "tokens_nonempty ls \<Longrightarrow> tokens_nonempty (setTokens tokens ls)"
  by (auto simp: tokens_nonempty_def setTokens_def setItem_def Let_def truthy_def split: option.splits)

lemma tokens_nonempty_clearTokens: "tokens_nonempty (clearTokens ls)"
  by (simp add: tokens_nonempty_def clearTokens_def)

lemma localStorage_settle:
  "localStorage (settle r err outcome s) =
     (case outcome of Some a \<Rightarrow> setTokens \<lparr>access = Some a, refresh = None\<rparr> (localStorage s)
      | None \<Rightarrow> clearTokens (localStorage s))"
  by (simp add: settle_def Let_def refreshAccessToken_end_def catch_refresh_def split: option.splits)

lemma tokens_nonempty_step:
  assumes "tokens_nonempty (localStorage s)" "step e s = Some s'"
  shows "tokens_nonempty (localStorage s')"
proof (cases e)
  case (Fail r err)
  then show ?thesis using assms
    by (auto simp: on_rejected_def refreshAccessToken_begin_def Let_def localStorage_settle
          tokens_nonempty_clearTokens split: if_splits option.splits)
next
  case (RefreshDone r outcome)
  then show ?thesis using assms
    by (auto simp: localStorage_settle tokens_nonempty_clearTokens tokens_nonempty_setTokens
          split: if_splits option.splits)
qed (use assms in \<open>auto simp: tokens_nonempty_clearTokens tokens_nonempty_setTokens split: if_splits\<close>)

lemma tokens_nonempty_reachable: "reachable s \<Longrightarrow> tokens_nonempty (localStorage s)"
proof (induction rule: reachable.induct)
  case reachable_init
  show ?case by (simp add: tokens_nonempty_def init_def)
next
  case (reachable_step s e s')
  then show ?case by (blast intro: tokens_nonempty_step)
qed


lemma run_reachable: "reachable s \<Longrightarrow> run es s = Some s' \<Longrightarrow> reachable s'"
proof (induction es arbitrary: s)
  case Nil
  then show ?case by simp
next
  case (Cons e es)
  then show ?case by (auto split: option.splits intro: reachable_step)
qed


text \<open>
  Claim C8: a successful token refresh overwrites only the stored access token. From the
  settling of its POST to its end \<^verbatim>\<open>refreshAccessToken\<close> leaves the refresh token and
  every key other than the access key as they were, whatever the outcome; on success with a
  non-empty \<^verbatim>\<open>data.access\<close> the access token is the new one; and up to its
  \<^verbatim>\<open>await\<close> the function writes nothing to the storage.
\<close>

theorem refresh_keeps_refresh_token:
  "getRefreshToken (localStorage (refreshAccessToken_end outcome s)) = getRefreshToken (localStorage s) \<and>
   (\<forall>k. k \<noteq> ACCESS_KEY \<longrightarrow> localStorage (refreshAccessToken_end outcome s) k = localStorage s k) \<and>
   (\<forall>a. outcome = Some a \<and> a \<noteq> [] \<longrightarrow>
      getAccessToken (localStorage (refreshAccessToken_end outcome s)) = Some a) \<and>
   localStorage (snd (refreshAccessToken_begin r s)) = localStorage s"
proof -
  have ls: "localStorage (refreshAccessToken_end out s) =
     (case out of None \<Rightarrow> localStorage s
      | Some a \<Rightarrow> setTokens \<lparr>access = Some a, refresh = None\<rparr> (localStorage s))" for out
    by (simp add: refreshAccessToken_end_def Let_def split: option.splits)
  have other: "k \<noteq> ACCESS_KEY \<Longrightarrow> setTokens \<lparr>access = Some a, refresh = None\<rparr> m k = m k"
    for k a and m :: local_storage
    by (simp add: setTokens_def setItem_def Let_def truthy_def)
  show ?thesis
    by (auto simp: ls other getRefreshToken_setTokens getAccessToken_setTokens truthy_def
          refreshAccessToken_begin_def Let_def split: option.splits)
qed

theorem refresh_keeps_refresh_token_witness:
  "''new'' \<noteq> [] \<and> REFRESH_KEY \<noteq> ACCESS_KEY \<and>
   getRefreshToken (localStorage (refreshAccessToken_end (Some ''new'')
      (init\<lparr>localStorage := [ACCESS_KEY \<mapsto> ''old'', REFRESH_KEY \<mapsto> ''ref'']\<rparr>))) = Some ''ref'' \<and>
   getAccessToken (localStorage (refreshAccessToken_end (Some ''new'')
      (init\<lparr>localStorage := [ACCESS_KEY \<mapsto> ''old'', REFRESH_KEY \<mapsto> ''ref'']\<rparr>))) = Some ''new'' \<and>
   localStorage (snd (refreshAccessToken_begin 1
      (init\<lparr>localStorage := [ACCESS_KEY \<mapsto> ''old'', REFRESH_KEY \<mapsto> ''ref'']\<rparr>)))
     = [ACCESS_KEY \<mapsto> ''old'', REFRESH_KEY \<mapsto> ''ref'']"
  using refresh_keeps_refresh_token
    [of "Some ''new''" "init\<lparr>localStorage := [ACCESS_KEY \<mapsto> ''old'', REFRESH_KEY \<mapsto> ''ref'']\<rparr>" 1]
    keys_differ
  by (simp add: getRefreshToken_def init_def)


text \<open>
  Claim C10: for a response error whose status is not 401, and for a 401 on a request
  already marked as retried, the response interceptor rejects with the original error and
  nothing else changes: the stored tokens, the refresh flag, the queue and the refresh
  requests on the network are as before, and the request is not sent again.
\<close>

theorem no_refresh_unless_fresh_401:
  "requests s r = Some c \<Longrightarrow> phase c = InFlight \<Longrightarrow> err \<noteq> Some 401 \<or> retry c \<Longrightarrow>
     step (Fail r err) s = Some (s\<lparr>requests := (requests s)(r \<mapsto> c\<lparr>phase := Rejected err\<rparr>)\<rparr>)"
  by (auto simp: in_flight_def on_rejected_def upd_request_def)

theorem no_refresh_unless_fresh_401_witness:
  "requests (init\<lparr>requests := [1 \<mapsto> \<lparr>retry = False, Authorization = None, sends = 1, phase = InFlight\<rparr>]\<rparr>) 1
     = Some \<lparr>retry = False, Authorization = None, sends = 1, phase = InFlight\<rparr> \<and>
   phase \<lparr>retry = False, Authorization = None, sends = 1, phase = InFlight\<rparr> = InFlight \<and>
   Some 500 \<noteq> Some (401::nat) \<and>
   step (Fail 1 (Some 500))
     (init\<lparr>requests := [1 \<mapsto> \<lparr>retry = False, Authorization = None, sends = 1, phase = InFlight\<rparr>]\<rparr>)
     = Some (init\<lparr>requests :=
         [1 \<mapsto> \<lparr>retry = False, Authorization = None, sends = 1, phase = Rejected (Some 500)\<rparr>]\<rparr>) \<and>
   retry \<lparr>retry = True, Authorization = None, sends = 2, phase = InFlight\<rparr> \<and>
   step (Fail 1 (Some 401))
     (init\<lparr>requests := [1 \<mapsto> \<lparr>retry = True, Authorization = None, sends = 2, phase = InFlight\<rparr>]\<rparr>)
     = Some (init\<lparr>requests :=
         [1 \<mapsto> \<lparr>retry = True, Authorization = None, sends = 2, phase = Rejected (Some 401)\<rparr>]\<rparr>)"
  using no_refresh_unless_fresh_401
    [of "init\<lparr>requests := [1 \<mapsto> \<lparr>retry = False, Authorization = None, sends = 1, phase = InFlight\<rparr>]\<rparr>"
        1 "\<lparr>retry = False, Authorization = None, sends = 1, phase = InFlight\<rparr>" "Some 500"]
    no_refresh_unless_fresh_401
    [of "init\<lparr>requests := [1 \<mapsto> \<lparr>retry = True, Authorization = None, sends = 2, phase = InFlight\<rparr>]\<rparr>"
        1 "\<lparr>retry = True, Authorization = None, sends = 2, phase = InFlight\<rparr>" "Some 401"]
  by simp


text \<open>
  Claim C6: in every reachable state of the client, if an access token is stored the
  request interceptor returns the config with the header Authorization set to
  \<open>''Bearer ''\<close> followed by exactly that token, and if none is stored it returns the config
  unchanged; and the config with which \<^verbatim>\<open>api\<close> puts a request on the network is the
  one the interceptor returns.
\<close>

theorem bearer_header:
  "reachable s \<Longrightarrow>
     (case getAccessToken (localStorage s) of
        Some token \<Rightarrow>
          request_interceptor (localStorage s) config =
            config\<lparr>Authorization := Some (''Bearer '' @ token)\<rparr>
      | None \<Rightarrow> request_interceptor (localStorage s) config = config) \<and>
     (requests s r = Some config \<longrightarrow>
        requests (api r s) r =
          Some ((request_interceptor (localStorage s) config)
                  \<lparr>sends := Suc (sends config), phase := InFlight\<rparr>))"
  using tokens_nonempty_reachable [of s]
  by (auto simp: request_interceptor_def set_bearer_def Let_def truthy_def tokens_nonempty_def
        getAccessToken_def api_def upd_request_def split: option.splits)

theorem bearer_header_witness:
  "reachable (the (run [Login ''tok'' ''ref''] init)) \<and>
   getAccessToken (localStorage (the (run [Login ''tok'' ''ref''] init))) = Some ''tok'' \<and>
   request_interceptor (localStorage (the (run [Login ''tok'' ''ref''] init)))
       \<lparr>retry = False, Authorization = None, sends = 0, phase = InFlight\<rparr>
     = \<lparr>retry = False, Authorization = Some ''Bearer tok'', sends = 0, phase = InFlight\<rparr> \<and>
   reachable init \<and>
   getAccessToken (localStorage init) = None \<and>
   request_interceptor (localStorage init)
       \<lparr>retry = False, Authorization = None, sends = 0, phase = InFlight\<rparr>
     = \<lparr>retry = False, Authorization = None, sends = 0, phase = InFlight\<rparr>"
proof -
  have r: "reachable (the (run [Login ''tok'' ''ref''] init))"
    using run_reachable [OF reachable_init, of "[Login ''tok'' ''ref'']"] by simp
  have t: "getAccessToken (localStorage (the (run [Login ''tok'' ''ref''] init))) = Some ''tok''"
    by (simp add: getAccessToken_setTokens truthy_def)
  have n: "getAccessToken (localStorage init) = None"
    by (simp add: init_def getAccessToken_def)
  show ?thesis
    using r t n reachable_init
      bearer_header [OF r, of "\<lparr>retry = False, Authorization = None, sends = 0, phase = InFlight\<rparr>"]
      bearer_header [OF reachable_init, of "\<lparr>retry = False, Authorization = None, sends = 0, phase = InFlight\<rparr>"]
    by simp
qed

subsection \<open>The refresh protocol\<close>

lemma phase_of_upd_request:
  "phase_of (upd_request r' f s) r =
     (if r = r' then map_option (phase \<circ> f) (requests s r) else phase_of s r)"
  by (simp add: phase_of_def upd_request_def split: option.splits)

lemma phase_set_bearer [simp]: "phase (set_bearer ls c) = phase c"
  by (simp add: set_bearer_def Let_def)

lemma phase_of_prepare_retry [simp]: "phase_of (prepare_retry r' s) r = phase_of s r"
  by (simp add: prepare_retry_def phase_of_upd_request comp_def) (simp add: phase_of_def)

lemma phase_of_fold_prepare_retry [simp]: "phase_of (fold prepare_retry rs s) r = phase_of s r"
  by (induction rs arbitrary: s) simp_all




lemma phase_of_refreshAccessToken_end [simp]:
  "phase_of (refreshAccessToken_end outcome s) r = phase_of s r"
  by (simp add: refreshAccessToken_end_def phase_of_def Let_def split: option.splits)






lemma phase_of_frame [simp]:
  "phase_of (s\<lparr>localStorage := ls\<rparr>) = phase_of s"
  "phase_of (s\<lparr>isRefreshing := b\<rparr>) = phase_of s"
  "phase_of (s\<lparr>pendingRequests := q\<rparr>) = phase_of s"
  "phase_of (s\<lparr>refreshPosts := p\<rparr>) = phase_of s"
  "phase_of (s\<lparr>href := h\<rparr>) = phase_of s"
  by (simp_all add: phase_of_def fun_eq_iff)


lemma phase_of_upd_retry [simp]:
  "phase_of (upd_request r' (\<lambda>c. c\<lparr>retry := b\<rparr>) s) r = phase_of s r"
  by (simp add: phase_of_upd_request comp_def) (simp add: phase_of_def)












text \<open>
  Claim C2 at a failing input: requests 1 and 2 both get a 401; the handler of request 1
  starts the refresh and that of request 2 is queued; the refresh fails. Request 1 is
  rejected with its error, the tokens are cleared and the location is \<open>''/login''\<close>, but
  request 2 is sent again, with the old token, instead of failing.
\<close>

theorem waiter_resent_after_failed_refresh:
  "run [Login ''a'' ''r'', Send 1 None, Send 2 None, Fail 1 (Some 401), Fail 2 (Some 401)] init
     \<noteq> None \<and>
   pendingRequests (the (run [Login ''a'' ''r'', Send 1 None, Send 2 None, Fail 1 (Some 401),
        Fail 2 (Some 401)] init)) = [2] \<and>
   requests (the (run [Login ''a'' ''r'', Send 1 None, Send 2 None, Fail 1 (Some 401),
        Fail 2 (Some 401)] init)) 2
     = Some \<lparr>retry = False, Authorization = Some ''Bearer a'', sends = 1,
              phase = Queued (Some 401)\<rparr> \<and>
   run [Login ''a'' ''r'', Send 1 None, Send 2 None, Fail 1 (Some 401), Fail 2 (Some 401),
        RefreshDone 1 None] init \<noteq> None \<and>
   requests (the (run [Login ''a'' ''r'', Send 1 None, Send 2 None, Fail 1 (Some 401),
        Fail 2 (Some 401), RefreshDone 1 None] init)) 1
     = Some \<lparr>retry = True, Authorization = Some ''Bearer a'', sends = 1,
              phase = Rejected (Some 401)\<rparr> \<and>
   requests (the (run [Login ''a'' ''r'', Send 1 None, Send 2 None, Fail 1 (Some 401),
        Fail 2 (Some 401), RefreshDone 1 None] init)) 2
     = Some \<lparr>retry = False, Authorization = Some ''Bearer a'', sends = 2, phase = InFlight\<rparr> \<and>
   getAccessToken (localStorage (the (run [Login ''a'' ''r'', Send 1 None, Send 2 None,
        Fail 1 (Some 401), Fail 2 (Some 401), RefreshDone 1 None] init))) = None \<and>
   getRefreshToken (localStorage (the (run [Login ''a'' ''r'', Send 1 None, Send 2 None,
        Fail 1 (Some 401), Fail 2 (Some 401), RefreshDone 1 None] init))) = None \<and>
   href (the (run [Login ''a'' ''r'', Send 1 None, Send 2 None, Fail 1 (Some 401),
        Fail 2 (Some 401), RefreshDone 1 None] init)) = ''/login''"
  by (simp add: client_defs)

text \<open>
  Claim C3 at a failing input: request 2 is queued behind the refresh started for request 1
  and is sent again when it succeeds, without its \<^verbatim>\<open>_retry\<close> flag being set; at its
  next 401 it starts a refresh of its own and is sent a third time.
\<close>

theorem queued_request_sent_three_times:
  "run [Login ''a'' ''r'', Send 1 None, Send 2 None, Fail 1 (Some 401), Fail 2 (Some 401),
        RefreshDone 1 (Some ''b''), Fail 2 (Some 401), RefreshDone 2 (Some ''c'')] init \<noteq> None \<and>
   requests (the (run [Login ''a'' ''r'', Send 1 None, Send 2 None, Fail 1 (Some 401),
        Fail 2 (Some 401), RefreshDone 1 (Some ''b'')] init)) 2
     = Some \<lparr>retry = False, Authorization = Some ''Bearer b'', sends = 2, phase = InFlight\<rparr> \<and>
   requests (the (run [Login ''a'' ''r'', Send 1 None, Send 2 None, Fail 1 (Some 401),
        Fail 2 (Some 401), RefreshDone 1 (Some ''b''), Fail 2 (Some 401),
        RefreshDone 2 (Some ''c'')] init)) 2
     = Some \<lparr>retry = True, Authorization = Some ''Bearer c'', sends = 3, phase = InFlight\<rparr>"
  by (simp add: client_defs)

section \<open>Properties of the Daily Review page\<close>

lemma fold_upd_lookup:
  "fold (\<lambda>(k, v) m. m(k \<mapsto> v)) es m k =
     (case map_of (rev es) k of None \<Rightarrow> m k | Some v \<Rightarrow> Some v)"
proof (induction es arbitrary: m)
  case Nil
  show ?case by simp
next
  case (Cons e es)
  obtain k' v' where e: "e = (k', v')" by (cases e)
  have "fold (\<lambda>(k, v) m. m(k \<mapsto> v)) (e # es) m k
      = fold (\<lambda>(k, v) m. m(k \<mapsto> v)) es (m(k' \<mapsto> v')) k"
    by (simp add: e)
  also have "\<dots> = (case map_of (rev es) k of None \<Rightarrow> (m(k' \<mapsto> v')) k | Some v \<Rightarrow> Some v)"
    by (rule Cons.IH)
  also have "\<dots> = (case map_of (rev (e # es)) k of None \<Rightarrow> m k | Some v \<Rightarrow> Some v)"
    by (auto simp: e map_add_def split: option.splits)
  finally show ?case .
qed

lemma new_Map_lookup: "new_Map es k = map_of (rev es) k"
  by (simp add: new_Map_def fold_upd_lookup split: option.splits)

lemma map_of_keyed:
  "map_of (map (\<lambda>x. (f x, g x)) xs) k = map_option g (find (\<lambda>x. f x = k) xs)"
  by (induction xs) auto

lemma load_merges_by_id:
  "load b withSug =
     map (\<lambda>x. x\<lparr>suggestions := Some
            (case find (\<lambda>y. id' y = id' x) (rev withSug) of
               None \<Rightarrow> []
             | Some y \<Rightarrow> or_empty (suggestions y))\<rparr>) b"
proof -
  have "or_empty (new_Map (map (\<lambda>x. (id' x, or_empty (suggestions x))) withSug) k) =
          (case find (\<lambda>y. id' y = k) (rev withSug) of
             None \<Rightarrow> []
           | Some y \<Rightarrow> or_empty (suggestions y))" for k
    by (simp add: new_Map_lookup rev_map map_of_keyed)
       (simp add: or_empty_def split: option.splits)
  then show ?thesis
    by (simp add: load_def Let_def)
qed

lemma find_unique:
  "distinct (map f xs) \<Longrightarrow> y \<in> set xs \<Longrightarrow> find (\<lambda>x. f x = f y) xs = Some y"
  by (induction xs) (auto simp: image_iff)

lemma find_none: "(\<forall>y\<in>set xs. f y \<noteq> k) \<Longrightarrow> find (\<lambda>x. f x = k) xs = None"
  by (induction xs) auto

text \<open>
  Claim C5: the block list the Daily Review displays is the list returned by
  \<^verbatim>\<open>GET blocks-today\<close>, in the same order, where each block's suggestions are replaced
  by those of the block with the same id in the \<^verbatim>\<open>GET suggestions-today\<close> response
  (the ids of a response being distinct), or by the empty list if no block with that id
  appears there. Lemma \<open>load_merges_by_id\<close> above says which block is taken when an id
  occurs more than once in the second response: the last one.
\<close>

theorem load_merges:
  assumes i: "i < length b"
  shows "length (load b withSug) = length b \<and>
    (\<forall>y. distinct (map id' withSug) \<and> y \<in> set withSug \<and> id' y = id' (b ! i) \<longrightarrow>
       load b withSug ! i = (b ! i)\<lparr>suggestions := Some (or_empty (suggestions y))\<rparr>) \<and>
    ((\<forall>y\<in>set withSug. id' y \<noteq> id' (b ! i)) \<longrightarrow>
       load b withSug ! i = (b ! i)\<lparr>suggestions := Some []\<rparr>)"
proof (intro conjI allI impI)
  show "length (load b withSug) = length b"
    by (simp add: load_merges_by_id)
next
  fix y
  assume h: "distinct (map id' withSug) \<and> y \<in> set withSug \<and> id' y = id' (b ! i)"
  then have "find (\<lambda>x. id' x = id' y) (rev withSug) = Some y"
    by (intro find_unique) (simp_all add: rev_map [symmetric])
  with i h show "load b withSug ! i = (b ! i)\<lparr>suggestions := Some (or_empty (suggestions y))\<rparr>"
    by (simp add: load_merges_by_id)
next
  assume h: "\<forall>y\<in>set withSug. id' y \<noteq> id' (b ! i)"
  then have "find (\<lambda>y. id' y = id' (b ! i)) (rev withSug) = None"
    by (intro find_none) simp
  with i show "load b withSug ! i = (b ! i)\<lparr>suggestions := Some []\<rparr>"
    by (simp add: load_merges_by_id)
qed


theorem load_merges_witness:
  "distinct (map id'
     [\<lparr>id' = 1, start = ''09:00'', end' = ''09:30'', minutes = 30, title = Some ''Inbox'',
       url = None, file_path = None, client = None, project = None, task = None,
       notes' = None,
       suggestions = Some [\<lparr>label_type = client_label, value_text = ''Acme'', confidence = 1\<rparr>]\<rparr>]) \<and>
   load
     [\<lparr>id' = 1, start = ''09:00'', end' = ''09:30'', minutes = 30, title = Some ''Inbox'',
       url = None, file_path = None, client = None, project = None, task = None,
       notes' = None, suggestions = None\<rparr>,
      \<lparr>id' = 2, start = ''09:30'', end' = ''10:00'', minutes = 30, title = Some ''Editor'',
       url = None, file_path = None, client = None, project = None, task = None,
       notes' = None, suggestions = None\<rparr>]
     [\<lparr>id' = 1, start = ''09:00'', end' = ''09:30'', minutes = 30, title = Some ''Inbox'',
       url = None, file_path = None, client = None, project = None, task = None,
       notes' = None,
       suggestions = Some [\<lparr>label_type = client_label, value_text = ''Acme'', confidence = 1\<rparr>]\<rparr>]
   = [\<lparr>id' = 1, start = ''09:00'', end' = ''09:30'', minutes = 30, title = Some ''Inbox'',
       url = None, file_path = None, client = None, project = None, task = None,
       notes' = None,
       suggestions = Some [\<lparr>label_type = client_label, value_text = ''Acme'', confidence = 1\<rparr>]\<rparr>,
      \<lparr>id' = 2, start = ''09:30'', end' = ''10:00'', minutes = 30, title = Some ''Editor'',
       url = None, file_path = None, client = None, project = None, task = None,
       notes' = None, suggestions = Some []\<rparr>]"
proof -
  let ?b1 = "\<lparr>id' = 1, start = ''09:00'', end' = ''09:30'', minutes = 30, title = Some ''Inbox'',
       url = None, file_path = None, client = None, project = None, task = None,
       notes' = None, suggestions = None\<rparr>"
  let ?b2 = "\<lparr>id' = 2, start = ''09:30'', end' = ''10:00'', minutes = 30, title = Some ''Editor'',
       url = None, file_path = None, client = None, project = None, task = None,
       notes' = None, suggestions = None\<rparr>"
  let ?w = "?b1\<lparr>suggestions :=
       Some [\<lparr>label_type = client_label, value_text = ''Acme'', confidence = 1\<rparr>]\<rparr>"
  have i0: "0 < length [?b1, ?b2]" and i1: "1 < length [?b1, ?b2]"
    by simp_all
  note inst0 = load_merges [OF i0, of "[?w]"]
  note inst1 = load_merges [OF i1, of "[?w]"]
  have len: "length (load [?b1, ?b2] [?w]) = 2"
    using inst0 by simp
  have "distinct (map id' [?w]) \<and> ?w \<in> set [?w] \<and> id' ?w = id' ([?b1, ?b2] ! 0)"
    by simp
  with inst0 have first: "load [?b1, ?b2] [?w] ! 0
      = ([?b1, ?b2] ! 0)\<lparr>suggestions := Some (or_empty (suggestions ?w))\<rparr>"
    by blast
  have "\<forall>y\<in>set [?w]. id' y \<noteq> id' ([?b1, ?b2] ! 1)"
    by simp
  with inst1 have second: "load [?b1, ?b2] [?w] ! 1 = ([?b1, ?b2] ! 1)\<lparr>suggestions := Some []\<rparr>"
    by blast
  have "load [?b1, ?b2] [?w] = [load [?b1, ?b2] [?w] ! 0, load [?b1, ?b2] [?w] ! 1]"
    using len by (simp add: list_eq_iff_nth_eq less_Suc_eq numeral_2_eq_2)
  then show ?thesis
    using first second by (simp add: or_empty_def)
qed


section \<open>Properties of labelling\<close>

text \<open>
  Claim C7, as stated: the submitted payload contains exactly \<^verbatim>\<open>block_id\<close> plus those
  of client, project, task and notes whose input is non-empty. With the box "Create rule
  from this" checked the payload has three more keys.
\<close>

theorem payload_with_rule_counterexample:
  "apply_payload
     \<lparr>block = \<lparr>id' = 7, start = ''09:00'', end' = ''09:30'', minutes = 30, title = None,
        url = None, file_path = None, client = None, project = None, task = None,
        notes' = None, suggestions = None\<rparr>,
      client_input = ''Acme'', project_input = [], task_input = [], notes_input = [],
      createRule = True, ruleField = client_field, ruleValue = ''Acme''\<rparr>
   = \<lparr>block_id = 7, payload_client = Some ''Acme'', payload_project = None,
      payload_task = None, payload_notes = None,
      create_rule = Some True, create_rule_field = Some client_field,
      create_rule_value = Some ''Acme'', pattern = None, kind = None\<rparr> \<and>
   apply_payload
     \<lparr>block = \<lparr>id' = 7, start = ''09:00'', end' = ''09:30'', minutes = 30, title = None,
        url = None, file_path = None, client = None, project = None, task = None,
        notes' = None, suggestions = None\<rparr>,
      client_input = ''Acme'', project_input = [], task_input = [], notes_input = [],
      createRule = True, ruleField = client_field, ruleValue = ''Acme''\<rparr>
   \<noteq> \<lparr>block_id = 7, payload_client = Some ''Acme'', payload_project = None,
      payload_task = None, payload_notes = None,
      create_rule = None, create_rule_field = None,
      create_rule_value = None, pattern = None, kind = None\<rparr>"
  by (simp add: apply_payload_def if_nonempty_def)

text \<open>
  Claim C7, amended: applying labels to a block writes only the fields present in the labels
  payload and leaves every absent field untouched on the stored block; an unknown block id
  is \<open>NotFoundError\<close>. In the client, the submitted payload contains \<^verbatim>\<open>block_id\<close>,
  those of client, project, task and notes whose input value is non-empty, and, exactly when
  the box "Create rule from this" is checked, \<^verbatim>\<open>create_rule = true\<close>,
  \<^verbatim>\<open>create_rule_field\<close> and \<^verbatim>\<open>create_rule_value\<close>; it contains nothing else.
\<close>

theorem labels_partial_update:
  "apply_payload form =
     \<lparr>block_id = id' (block form),
      payload_client = (if client_input form \<noteq> [] then Some (client_input form) else None),
      payload_project = (if project_input form \<noteq> [] then Some (project_input form) else None),
      payload_task = (if task_input form \<noteq> [] then Some (task_input form) else None),
      payload_notes = (if notes_input form \<noteq> [] then Some (notes_input form) else None),
      create_rule = (if createRule form then Some True else None),
      create_rule_field = (if createRule form then Some (ruleField form) else None),
      create_rule_value = (if createRule form then Some (ruleValue form) else None),
      pattern = None, kind = None\<rparr> \<and>
   (store bid = None \<longrightarrow> apply_labels store bid labels = Inl NotFoundError) \<and>
   (\<forall>b. store bid = Some b \<longrightarrow>
      (\<exists>b'. apply_labels store bid labels = Inr (store(bid \<mapsto> b')) \<and>
         block_rest b' = block_rest b \<and>
         labels_client (stored_labels b') =
           (case labels_client labels of None \<Rightarrow> labels_client (stored_labels b) | Some v \<Rightarrow> Some v) \<and>
         labels_project (stored_labels b') =
           (case labels_project labels of None \<Rightarrow> labels_project (stored_labels b) | Some v \<Rightarrow> Some v) \<and>
         labels_task (stored_labels b') =
           (case labels_task labels of None \<Rightarrow> labels_task (stored_labels b) | Some v \<Rightarrow> Some v) \<and>
         labels_notes (stored_labels b') =
           (case labels_notes labels of None \<Rightarrow> labels_notes (stored_labels b) | Some v \<Rightarrow> Some v)))"
proof (intro conjI allI impI)
  fix b
  assume b: "store bid = Some b"
  let ?b' = "b\<lparr>stored_labels :=
      \<lparr>labels_client = write_field (labels_client labels) (labels_client (stored_labels b)),
       labels_project = write_field (labels_project labels) (labels_project (stored_labels b)),
       labels_task = write_field (labels_task labels) (labels_task (stored_labels b)),
       labels_notes = write_field (labels_notes labels) (labels_notes (stored_labels b))\<rparr>\<rparr>"
  have "apply_labels store bid labels = Inr (store(bid \<mapsto> ?b'))"
    by (simp add: apply_labels_def b)
  then show "\<exists>b'. apply_labels store bid labels = Inr (store(bid \<mapsto> b')) \<and>
         block_rest b' = block_rest b \<and>
         labels_client (stored_labels b') =
           (case labels_client labels of None \<Rightarrow> labels_client (stored_labels b) | Some v \<Rightarrow> Some v) \<and>
         labels_project (stored_labels b') =
           (case labels_project labels of None \<Rightarrow> labels_project (stored_labels b) | Some v \<Rightarrow> Some v) \<and>
         labels_task (stored_labels b') =
           (case labels_task labels of None \<Rightarrow> labels_task (stored_labels b) | Some v \<Rightarrow> Some v) \<and>
         labels_notes (stored_labels b') =
           (case labels_notes labels of None \<Rightarrow> labels_notes (stored_labels b) | Some v \<Rightarrow> Some v)"
    by (intro exI [of _ ?b']) (simp add: write_field_def)
qed (simp_all add: apply_payload_def if_nonempty_def apply_labels_def)


theorem labels_partial_update_witness:
  "[7 \<mapsto> \<lparr>stored_labels = \<lparr>labels_client = Some ''Old'', labels_project = Some ''Site'',
                              labels_task = None, labels_notes = None\<rparr>,
           block_rest = ()\<rparr>] (8::int) = None \<and>
   apply_labels
     [7 \<mapsto> \<lparr>stored_labels = \<lparr>labels_client = Some ''Old'', labels_project = Some ''Site'',
                              labels_task = None, labels_notes = None\<rparr>,
           block_rest = ()\<rparr>]
     8 \<lparr>labels_client = Some ''Acme'', labels_project = None, labels_task = None,
        labels_notes = None\<rparr>
     = Inl NotFoundError \<and>
   apply_labels
     [7 \<mapsto> \<lparr>stored_labels = \<lparr>labels_client = Some ''Old'', labels_project = Some ''Site'',
                              labels_task = None, labels_notes = None\<rparr>,
           block_rest = ()\<rparr>]
     7 (payload_labels (apply_payload
        \<lparr>block = \<lparr>id' = 7, start = ''09:00'', end' = ''09:30'', minutes = 30, title = None,
           url = None, file_path = None, client = Some ''Old'', project = Some ''Site'',
           task = None, notes' = None, suggestions = None\<rparr>,
         client_input = ''Acme'', project_input = [], task_input = [], notes_input = [],
         createRule = False, ruleField = client_field, ruleValue = []\<rparr>))
     = Inr [7 \<mapsto> \<lparr>stored_labels = \<lparr>labels_client = Some ''Acme'',
                                      labels_project = Some ''Site'',
                                      labels_task = None, labels_notes = None\<rparr>,
                   block_rest = ()\<rparr>]"
proof -
  let ?store = "[7 \<mapsto> \<lparr>stored_labels = \<lparr>labels_client = Some ''Old'',
      labels_project = Some ''Site'', labels_task = None, labels_notes = None\<rparr>,
      block_rest = ()\<rparr>] :: int \<rightharpoonup> unit StoredBlock"
  let ?form = "\<lparr>block = \<lparr>id' = 7, start = ''09:00'', end' = ''09:30'', minutes = 30, title = None,
           url = None, file_path = None, client = Some ''Old'', project = Some ''Site'',
           task = None, notes' = None, suggestions = None\<rparr>,
         client_input = ''Acme'', project_input = [], task_input = [], notes_input = [],
         createRule = False, ruleField = client_field, ruleValue = []\<rparr>"
  have none: "?store 8 = None"
    by simp
  let ?labels = "\<lparr>labels_client = Some ''Acme'', labels_project = None, labels_task = None,
       labels_notes = None\<rparr>"
  note inst = labels_partial_update [of ?form ?store 7 ?labels]
  from inst have "apply_payload ?form =
      \<lparr>block_id = 7, payload_client = Some ''Acme'', payload_project = None,
       payload_task = None, payload_notes = None, create_rule = None,
       create_rule_field = None, create_rule_value = None, pattern = None, kind = None\<rparr>"
    by simp
  then have payload: "payload_labels (apply_payload ?form) = ?labels"
    by (simp add: payload_labels_def)
  have nf: "apply_labels ?store 8 ?labels = Inl NotFoundError"
    using none labels_partial_update [of ?form ?store 8 ?labels] by blast
  from inst have "\<exists>b'. apply_labels ?store 7 ?labels = Inr (?store(7 \<mapsto> b')) \<and>
        block_rest b' = () \<and>
        labels_client (stored_labels b') = Some ''Acme'' \<and>
        labels_project (stored_labels b') = Some ''Site'' \<and>
        labels_task (stored_labels b') = None \<and>
        labels_notes (stored_labels b') = None"
    by simp
  then obtain b' where b': "apply_labels ?store 7 ?labels = Inr (?store(7 \<mapsto> b'))"
      "block_rest b' = ()"
      "labels_client (stored_labels b') = Some ''Acme''"
      "labels_project (stored_labels b') = Some ''Site''"
      "labels_task (stored_labels b') = None"
      "labels_notes (stored_labels b') = None"
    by blast
  have "b' = \<lparr>stored_labels = \<lparr>labels_client = Some ''Acme'', labels_project = Some ''Site'',
                 labels_task = None, labels_notes = None\<rparr>, block_rest = ()\<rparr>"
    using b'(2-6) by (cases b', cases "stored_labels b'") simp
  with b'(1) none nf show ?thesis
    by (simp add: payload)
qed

section \<open>Properties of the aggregator\<close>










end
